theory Spec2Isabelle
  imports Main "HOL-Library.Word"
begin

section \<open>Data model of \<^verbatim>\<open>Core/Src/main.c\<close>\<close>

text \<open>
  The firmware keeps all of its data in file-scope variables. They become the fields of
  one record that every operation takes and returns. \<^verbatim>\<open>uint8_t\<close> and
  \<^verbatim>\<open>int8_t\<close> are both 8-bit words; a signed buffer is read with \<open>sint\<close>,
  an unsigned one with \<open>uint\<close>.
\<close>

type_synonym uint8_t = "8 word"
type_synonym int8_t = "8 word"

datatype AppState_t = STATE_IDLE | STATE_WAIT_START | STATE_RECEIVE_IMAGE | STATE_PROCESS_IMAGE

definition IMG_SIZE :: nat where
  "IMG_SIZE = 784"

definition NUM_CLASSES :: nat where
  "NUM_CLASSES = 10"

text \<open>The UART peripherals of the part; \<^verbatim>\<open>huart2.Instance\<close> is \<open>USART2\<close>.\<close>

datatype USART_TypeDef = USART1 | USART2 | USART6

text \<open>The two buffers that are ever passed to \<^verbatim>\<open>HAL_UART_Receive_IT\<close>.\<close>

datatype rx_target = START_CMD_BUFFER | IMG_BUFFER

text \<open>
  Where the thread of \<^verbatim>\<open>main\<close> stands, named by the source line of the
  statement it executes next: \<open>L280\<close> is the \<^verbatim>\<open>while(1) {}\<close> after a failed
  initialisation, \<open>L308\<close> and \<open>L319\<close> are the two polls of the loop, \<open>L311\<close> is the
  call of \<^verbatim>\<open>ProcessInference\<close> (its quantisation loop comes first) and \<open>L153\<close>
  is the rest of that function, from the engine run on.
\<close>

datatype main_pc = L280 | L308 | L310 | L311 | L153 | L314 | L315 | L319 | L321 | L324 | L325

record device =
  app_state :: AppState_t
  rx_complete :: uint8_t
  rx_error :: uint8_t
  start_cmd_buffer :: "uint8_t list"
  img_buffer :: "uint8_t list"
  input_buffer :: "int8_t list"
  output_buffer :: "int8_t list"
  network :: bool
  ai_input :: bool
  ai_output :: bool
  uart_tx :: "string list"
  uart_rx :: "(rx_target \<times> nat) list"
  pc :: main_pc

text \<open>
  \<open>network\<close>, \<open>ai_input\<close> and \<open>ai_output\<close> say whether the handle or pointer is
  non-null, which is all that \<^verbatim>\<open>main.c\<close> asks of them. \<open>uart_tx\<close> holds the
  byte strings handed to \<^verbatim>\<open>HAL_UART_Transmit\<close>, oldest first, and \<open>uart_rx\<close>
  the receive requests handed to \<^verbatim>\<open>HAL_UART_Receive_IT\<close> that no event has
  answered yet, oldest first.
\<close>

text \<open>
  The inference library (\<^verbatim>\<open>ai_platform_*\<close>) is linked in binary form; the
  firmware sees only what its entry points return, and those results are the fields of
  \<open>ai_engine\<close>: the error type of \<^verbatim>\<open>ai_network_create_and_init\<close> (0 is
  \<^verbatim>\<open>AI_ERROR_NONE\<close>) and whether it left a handle, whether
  \<^verbatim>\<open>ai_network_inputs_get\<close> and \<^verbatim>\<open>ai_network_outputs_get\<close> return
  a descriptor, and \<^verbatim>\<open>ai_network_run\<close> as a function from the input tensor to
  the batch count and the scores written to the output buffer. A function is a
  deterministic engine.
\<close>

record ai_engine =
  create_and_init_error :: nat
  create_and_init_handle :: bool
  inputs_get :: bool
  outputs_get :: bool
  network_run :: "int8_t list \<Rightarrow> int \<times> int8_t list"

definition AI_ERROR_NONE :: nat where
  "AI_ERROR_NONE = 0"

section \<open>Platform calls\<close>

definition CRLF :: string where
  "CRLF = [CHR 0x0D, CHR 0x0A]"

text \<open>\<^verbatim>\<open>snprintf(buf, n, ...)\<close> keeps at most \<open>n - 1\<close> characters.\<close>

definition snprintf :: "nat \<Rightarrow> string \<Rightarrow> string" where
  "snprintf n s = take (n - 1) s"

definition digit_char :: "nat \<Rightarrow> char" where
  "digit_char d = ''0123456789'' ! d"

function dec_digits :: "nat \<Rightarrow> string" where
  "dec_digits n = (if n < 10 then [digit_char n] else dec_digits (n div 10) @ [digit_char (n mod 10)])"
  by pat_completeness auto
termination
  by (relation "measure id") auto

declare dec_digits.simps [simp del]

text \<open>The conversion \<^verbatim>\<open>%d\<close>.\<close>

definition printf_d :: "int \<Rightarrow> string" where
  "printf_d i = (if i < 0 then CHR ''-'' # dec_digits (nat (- i)) else dec_digits (nat i))"

text \<open>
  Modelled from the spec: \<^verbatim>\<open>HAL_UART_Transmit\<close> and
  \<^verbatim>\<open>HAL_UART_Receive_IT\<close> belong to the vendor's HAL. The spec gives them as
  \<open>transmit_blocking(bytes, timeout)\<close> and \<open>receive_async(buffer, length)\<close>; the
  firmware ignores what they return. A transmit appends its bytes to \<open>uart_tx\<close>, a
  receive request is appended to \<open>uart_rx\<close>.
\<close>

definition HAL_UART_Transmit :: "string \<Rightarrow> device \<Rightarrow> device" where
  "HAL_UART_Transmit msg s = s\<lparr>uart_tx := uart_tx s @ [msg]\<rparr>"

definition HAL_UART_Receive_IT :: "rx_target \<Rightarrow> nat \<Rightarrow> device \<Rightarrow> device" where
  "HAL_UART_Receive_IT buf n s = s\<lparr>uart_rx := uart_rx s @ [(buf, n)]\<rparr>"

section \<open>The inference pipeline\<close>

definition AI_Init :: "ai_engine \<Rightarrow> device \<Rightarrow> int \<times> device" where
  "AI_Init E s =
     (let s1 = s\<lparr>network := create_and_init_handle E\<rparr>
      in if create_and_init_error E \<noteq> AI_ERROR_NONE then (- 1, s1)
         else let s2 = s1\<lparr>ai_input := inputs_get E, ai_output := outputs_get E\<rparr>
              in if \<not> ai_input s2 \<or> \<not> ai_output s2 then (- 1, s2) else (0, s2))"

text \<open>
  \<^verbatim>\<open>AI_Run\<close> is only ever called on \<open>input_buffer\<close> and \<open>output_buffer\<close>,
  so the two pointer arguments are those fields.
\<close>

definition AI_Run :: "ai_engine \<Rightarrow> device \<Rightarrow> int \<times> device" where
  "AI_Run E s =
     (if \<not> network s \<or> \<not> ai_input s \<or> \<not> ai_output s then (- 1, s)
      else let (batch, scores) = network_run E (input_buffer s);
               s1 = s\<lparr>output_buffer := scores\<rparr>
           in if batch \<noteq> 1 then (- 1, s1) else (0, s1))"

text \<open>
  \<^verbatim>\<open>(int8_t)(img_buffer[i] - 128)\<close>: the sample is promoted to \<^verbatim>\<open>int\<close>,
  128 is subtracted there, and the difference is converted to 8 bits.
\<close>

definition quantize_sample :: "uint8_t \<Rightarrow> int8_t" where
  "quantize_sample x = word_of_int (uint x - 128)"

function quantize_loop :: "uint8_t list \<Rightarrow> int8_t list \<Rightarrow> nat \<Rightarrow> int8_t list" where
  "quantize_loop img inp i =
     (if i < IMG_SIZE then quantize_loop img (inp[i := quantize_sample (img ! i)]) (i + 1)
      else inp)"
  by pat_completeness auto
termination
  by (relation "measure (\<lambda>(img, inp, i). IMG_SIZE - i)") auto

declare quantize_loop.simps [simp del]

text \<open>
  The scan for the largest score: \<open>i\<close> is the loop counter, the other two arguments
  are the locals \<^verbatim>\<open>predicted_class\<close> and \<^verbatim>\<open>max_prob\<close>. The comparison is
  the signed one of \<^verbatim>\<open>int8_t\<close>.
\<close>

function find_max :: "int8_t list \<Rightarrow> nat \<Rightarrow> int \<Rightarrow> int8_t \<Rightarrow> int" where
  "find_max out i predicted_class max_prob =
     (if i < NUM_CLASSES
      then (if sint max_prob < sint (out ! i)
            then find_max out (i + 1) (int i) (out ! i)
            else find_max out (i + 1) predicted_class max_prob)
      else predicted_class)"
  by pat_completeness auto
termination
  by (relation "measure (\<lambda>(out, i, p, m). NUM_CLASSES - i)") auto

declare find_max.simps [simp del]

definition SendResult :: "int \<Rightarrow> device \<Rightarrow> device" where
  "SendResult predicted_class s =
     HAL_UART_Transmit (snprintf 32 (printf_d predicted_class @ CRLF)) s"

text \<open>
  \<^verbatim>\<open>ProcessInference\<close> in its two parts: lines 147 to 150, and lines 153 to 179.
  The tick read at line 153 is never used.
\<close>

definition ProcessInference_quantize :: "device \<Rightarrow> device" where
  "ProcessInference_quantize s =
     s\<lparr>input_buffer := quantize_loop (img_buffer s) (input_buffer s) 0\<rparr>"

definition ProcessInference_run :: "ai_engine \<Rightarrow> device \<Rightarrow> device" where
  "ProcessInference_run E s =
     (let (ret, s1) = AI_Run E s
      in if ret = 0
         then SendResult (find_max (output_buffer s1) 1 0 (output_buffer s1 ! 0)) s1
         else HAL_UART_Transmit (snprintf 48 (''ERROR: Inference failed'' @ CRLF)) s1)"

definition ProcessInference :: "ai_engine \<Rightarrow> device \<Rightarrow> device" where
  "ProcessInference E s = ProcessInference_run E (ProcessInference_quantize s)"

section \<open>The interrupt callbacks\<close>

definition START :: "uint8_t list" where
  "START = map of_char ''START''"

text \<open>\<^verbatim>\<open>memcmp(start_cmd_buffer, "START", 5) == 0\<close> compares the first five bytes.\<close>

definition HAL_UART_RxCpltCallback :: "USART_TypeDef \<Rightarrow> device \<Rightarrow> device" where
  "HAL_UART_RxCpltCallback huart s =
     (if huart = USART2
      then (if app_state s = STATE_WAIT_START
            then (if take 5 (start_cmd_buffer s) = START
                  then HAL_UART_Receive_IT IMG_BUFFER IMG_SIZE (s\<lparr>app_state := STATE_RECEIVE_IMAGE\<rparr>)
                  else HAL_UART_Receive_IT START_CMD_BUFFER 5 s)
            else if app_state s = STATE_RECEIVE_IMAGE
            then s\<lparr>rx_complete := 1, app_state := STATE_PROCESS_IMAGE\<rparr>
            else s)
      else s)"

definition HAL_UART_ErrorCallback :: "USART_TypeDef \<Rightarrow> device \<Rightarrow> device" where
  "HAL_UART_ErrorCallback huart s =
     (if huart = USART2
      then HAL_UART_Transmit (snprintf 48 (''ERROR: UART error'' @ CRLF))
             (s\<lparr>rx_error := 1, app_state := STATE_IDLE\<rparr>)
      else s)"

section \<open>\<^verbatim>\<open>main\<close>\<close>

text \<open>
  The file-scope variables as the C start-up code leaves them; \<open>pc\<close> is set by
  \<open>main_boot\<close>.
\<close>

definition reset :: device where
  "reset = \<lparr>app_state = STATE_IDLE, rx_complete = 0, rx_error = 0,
            start_cmd_buffer = replicate 5 0, img_buffer = replicate IMG_SIZE 0,
            input_buffer = replicate IMG_SIZE 0, output_buffer = replicate NUM_CLASSES 0,
            network = False, ai_input = False, ai_output = False,
            uart_tx = [], uart_rx = [], pc = L308\<rparr>"

text \<open>Lines 274 to 295: everything \<^verbatim>\<open>main\<close> does before its loop.\<close>

definition main_boot :: "ai_engine \<Rightarrow> device" where
  "main_boot E =
     (let (ret, s1) = AI_Init E reset
      in if ret \<noteq> 0
         then (HAL_UART_Transmit (snprintf 64 (''AI Init Failed!'' @ CRLF)) s1)\<lparr>pc := L280\<rparr>
         else let s2 = HAL_UART_Transmit
                         (snprintf 64 (''STM32F411 Ready - Cube AI Initialized'' @ CRLF)) s1;
                  s3 = s2\<lparr>app_state := STATE_WAIT_START\<rparr>
              in (HAL_UART_Receive_IT START_CMD_BUFFER 5 s3)\<lparr>pc := L308\<rparr>)"

text \<open>One statement of \<^verbatim>\<open>main\<close> from line 280 on.\<close>

definition main_step :: "ai_engine \<Rightarrow> device \<Rightarrow> device" where
  "main_step E s =
     (case pc s of
        L280 \<Rightarrow> s
      | L308 \<Rightarrow> (if rx_complete s \<noteq> 0 then s\<lparr>pc := L310\<rparr> else s\<lparr>pc := L319\<rparr>)
      | L310 \<Rightarrow> s\<lparr>rx_complete := 0, pc := L311\<rparr>
      | L311 \<Rightarrow> (ProcessInference_quantize s)\<lparr>pc := L153\<rparr>
      | L153 \<Rightarrow> (ProcessInference_run E s)\<lparr>pc := L314\<rparr>
      | L314 \<Rightarrow> s\<lparr>app_state := STATE_WAIT_START, pc := L315\<rparr>
      | L315 \<Rightarrow> (HAL_UART_Receive_IT START_CMD_BUFFER 5 s)\<lparr>pc := L319\<rparr>
      | L319 \<Rightarrow> (if rx_error s \<noteq> 0 then s\<lparr>pc := L321\<rparr> else s\<lparr>pc := L308\<rparr>)
      | L321 \<Rightarrow> s\<lparr>rx_error := 0, pc := L324\<rparr>
      | L324 \<Rightarrow> s\<lparr>app_state := STATE_WAIT_START, pc := L325\<rparr>
      | L325 \<Rightarrow> (HAL_UART_Receive_IT START_CMD_BUFFER 5 s)\<lparr>pc := L308\<rparr>)"

section \<open>The platform's events\<close>

text \<open>
  Modelled from the spec: the interrupt side of the HAL is not part of the sources. By
  the spec the platform raises two events, each for the buffer that was being filled: a
  receive completes only once the requested number of bytes has arrived, and a receive
  error abandons the receive in progress. So an event answers the oldest open request:
  it stores the bytes that arrived, closes the request and calls the callback for
  \<open>USART2\<close>. No event arrives while no request is open. What the HAL does with a
  request made while another is open is not modelled: such a request would stand in
  \<open>uart_rx\<close> as a second entry.
\<close>

definition store_bytes :: "rx_target \<Rightarrow> uint8_t list \<Rightarrow> device \<Rightarrow> device" where
  "store_bytes buf bytes s =
     (case buf of
        START_CMD_BUFFER \<Rightarrow>
          s\<lparr>start_cmd_buffer := bytes @ drop (length bytes) (start_cmd_buffer s)\<rparr>
      | IMG_BUFFER \<Rightarrow> s\<lparr>img_buffer := bytes @ drop (length bytes) (img_buffer s)\<rparr>)"

definition uart_rx_complete :: "uint8_t list \<Rightarrow> device \<Rightarrow> device" where
  "uart_rx_complete bytes s =
     (case uart_rx s of
        [] \<Rightarrow> s
      | (buf, n) # rest \<Rightarrow>
          HAL_UART_RxCpltCallback USART2 (store_bytes buf bytes (s\<lparr>uart_rx := rest\<rparr>)))"

definition uart_rx_error :: "uint8_t list \<Rightarrow> device \<Rightarrow> device" where
  "uart_rx_error bytes s =
     (case uart_rx s of
        [] \<Rightarrow> s
      | (buf, n) # rest \<Rightarrow>
          HAL_UART_ErrorCallback USART2 (store_bytes buf bytes (s\<lparr>uart_rx := rest\<rparr>)))"

text \<open>
  The states the device can be in: \<^verbatim>\<open>main\<close> advances by one statement, or an
  interrupt is served between two statements.
\<close>

inductive_set reachable :: "ai_engine \<Rightarrow> device set" for E :: ai_engine where
  boot: "main_boot E \<in> reachable E"
| main: "s \<in> reachable E \<Longrightarrow> main_step E s \<in> reachable E"
| rx_complete_event:
    "s \<in> reachable E \<Longrightarrow> uart_rx s = (buf, n) # rest \<Longrightarrow> length bytes = n \<Longrightarrow>
     uart_rx_complete bytes s \<in> reachable E"
| rx_error_event:
    "s \<in> reachable E \<Longrightarrow> uart_rx s = (buf, n) # rest \<Longrightarrow> length bytes \<le> n \<Longrightarrow>
     uart_rx_error bytes s \<in> reachable E"

section \<open>Derived notions\<close>

text \<open>The readiness banner of line 289.\<close>

definition READY :: string where
  "READY = ''STM32F411 Ready - Cube AI Initialized'' @ CRLF"

text \<open>
  The Predicted Class in the spec's words, for comparison with the code: the engine's
  scores for the quantised frame, reduced to the index of their maximum. It depends on
  the engine and the frame and on nothing else.
\<close>

definition predicted_class :: "ai_engine \<Rightarrow> uint8_t list \<Rightarrow> int" where
  "predicted_class E img =
     (let scores = snd (network_run E (map quantize_sample img))
      in find_max scores 1 0 (scores ! 0))"

text \<open>
  Engines for the examples: one that initialises and answers every run with the same
  batch count and scores, and one whose initialisation reports an error.
\<close>

definition scripted_engine :: "int \<Rightarrow> int8_t list \<Rightarrow> ai_engine" where
  "scripted_engine batch scores =
     \<lparr>create_and_init_error = AI_ERROR_NONE, create_and_init_handle = True,
      inputs_get = True, outputs_get = True, network_run = (\<lambda>tensor. (batch, scores))\<rparr>"

definition broken_engine :: ai_engine where
  "broken_engine = (scripted_engine 1 (replicate 10 0))\<lparr>create_and_init_error := 1\<rparr>"




text \<open>
  The receive discipline as a predicate on states. With no request open, \<open>idle_ok\<close>
  says what the two flags can be at each statement of \<^verbatim>\<open>main\<close>. With a request
  open, \<open>receiving\<close> holds: it is the only one, it is the one the protocol state calls
  for, both flags are clear and \<^verbatim>\<open>main\<close> is at one of its two polls.
\<close>

definition idle_ok :: "device \<Rightarrow> bool" where
  "idle_ok s =
     (case pc s of
        L280 \<Rightarrow> True
      | L308 \<Rightarrow> rx_complete s = 0 \<or> rx_error s = 0
      | L310 \<Rightarrow> rx_error s = 0
      | L311 \<Rightarrow> rx_complete s = 0 \<and> rx_error s = 0
      | L153 \<Rightarrow> rx_complete s = 0 \<and> rx_error s = 0
      | L314 \<Rightarrow> rx_complete s = 0 \<and> rx_error s = 0
      | L315 \<Rightarrow> rx_complete s = 0 \<and> rx_error s = 0 \<and> app_state s = STATE_WAIT_START
      | L319 \<Rightarrow> rx_complete s = 0 \<or> rx_error s = 0
      | L321 \<Rightarrow> rx_complete s = 0
      | L324 \<Rightarrow> rx_complete s = 0 \<and> rx_error s = 0
      | L325 \<Rightarrow> rx_complete s = 0 \<and> rx_error s = 0 \<and> app_state s = STATE_WAIT_START)"

definition receiving :: "device \<Rightarrow> bool" where
  "receiving s \<longleftrightarrow>
     (pc s = L308 \<or> pc s = L319) \<and> rx_complete s = 0 \<and> rx_error s = 0 \<and>
     (uart_rx s = [(START_CMD_BUFFER, 5)] \<and> app_state s = STATE_WAIT_START \<or>
      uart_rx s = [(IMG_BUFFER, IMG_SIZE)] \<and> app_state s = STATE_RECEIVE_IMAGE)"

definition rx_inv :: "device \<Rightarrow> bool" where
  "rx_inv s \<longleftrightarrow> uart_rx s = [] \<and> idle_ok s \<or> receiving s"

text \<open>
  The banner heads everything transmitted, occurs there once, and \<^verbatim>\<open>main\<close> is
  not in the loop of line 280.
\<close>

definition banner_once :: "device \<Rightarrow> bool" where
  "banner_once s \<longleftrightarrow>
     uart_tx s \<noteq> [] \<and> hd (uart_tx s) = READY \<and> count_list (uart_tx s) READY = 1 \<and> pc s \<noteq> L280"

section \<open>Auxiliary facts\<close>

lemma START_bytes: "START = [0x53, 0x54, 0x41, 0x52, 0x54]"
  by (simp add: START_def)

lemma funpow4: "(f ^^ 4) x = f (f (f (f x)))"
  by (simp add: eval_nat_numeral)

lemma funpow5: "(f ^^ 5) x = f (f (f (f (f x))))"
  by (simp add: eval_nat_numeral)

lemma funpow6: "(f ^^ 6) x = f (f (f (f (f (f x)))))"
  by (simp add: eval_nat_numeral)



lemma ProcessInference_run_frame:
  "app_state (ProcessInference_run E s) = app_state s"
  "rx_complete (ProcessInference_run E s) = rx_complete s"
  "rx_error (ProcessInference_run E s) = rx_error s"
  "start_cmd_buffer (ProcessInference_run E s) = start_cmd_buffer s"
  "img_buffer (ProcessInference_run E s) = img_buffer s"
  "input_buffer (ProcessInference_run E s) = input_buffer s"
  "network (ProcessInference_run E s) = network s"
  "ai_input (ProcessInference_run E s) = ai_input s"
  "ai_output (ProcessInference_run E s) = ai_output s"
  "uart_rx (ProcessInference_run E s) = uart_rx s"
  "pc (ProcessInference_run E s) = pc s"
  by (simp_all add: ProcessInference_run_def AI_Run_def SendResult_def HAL_UART_Transmit_def
      Let_def split: prod.splits)

lemma ProcessInference_run_tx:
  "uart_tx (ProcessInference_run E s) = uart_tx s @
     [if \<not> network s \<or> \<not> ai_input s \<or> \<not> ai_output s \<or> fst (network_run E (input_buffer s)) \<noteq> 1
      then ''ERROR: Inference failed'' @ CRLF
      else snprintf 32 (printf_d (find_max (snd (network_run E (input_buffer s))) 1 0
                                   (snd (network_run E (input_buffer s)) ! 0)) @ CRLF)]"
  by (simp add: ProcessInference_run_def AI_Run_def SendResult_def HAL_UART_Transmit_def
      snprintf_def CRLF_def Let_def split: prod.splits)

text \<open>The six statements from the poll of line 308 to the re-arm of line 315.\<close>

lemma complete_branch:
  assumes "pc s = L308" and "rx_complete s \<noteq> 0"
  shows "(main_step E ^^ 6) s =
           (ProcessInference_run E
              (s\<lparr>rx_complete := 0,
                 input_buffer := quantize_loop (img_buffer s) (input_buffer s) 0,
                 pc := L153\<rparr>))
           \<lparr>app_state := STATE_WAIT_START, uart_rx := uart_rx s @ [(START_CMD_BUFFER, 5)], pc := L319\<rparr>"
  using assms
  by (simp add: funpow6 main_step_def ProcessInference_quantize_def ProcessInference_run_frame
      HAL_UART_Receive_IT_def)

text \<open>The four statements from the poll of line 319 to the re-arm of line 325.\<close>

lemma error_branch:
  assumes "pc s = L319" and "rx_error s \<noteq> 0"
  shows "(main_step E ^^ 4) s =
           s\<lparr>rx_error := 0, app_state := STATE_WAIT_START,
             uart_rx := uart_rx s @ [(START_CMD_BUFFER, 5)], pc := L308\<rparr>"
  using assms
  by (simp add: funpow4 main_step_def HAL_UART_Receive_IT_def)

lemma ProcessInference_tx:
  "uart_tx (ProcessInference E s) = uart_tx s @
     [if \<not> network s \<or> \<not> ai_input s \<or> \<not> ai_output s \<or>
         fst (network_run E (quantize_loop (img_buffer s) (input_buffer s) 0)) \<noteq> 1
      then ''ERROR: Inference failed'' @ CRLF
      else snprintf 32
             (printf_d
                (find_max (snd (network_run E (quantize_loop (img_buffer s) (input_buffer s) 0))) 1 0
                   (snd (network_run E (quantize_loop (img_buffer s) (input_buffer s) 0)) ! 0))
              @ CRLF)]"
  by (simp add: ProcessInference_def ProcessInference_run_tx ProcessInference_quantize_def)

section \<open>Quantisation\<close>

lemma sint_quantize_sample: "sint (quantize_sample x) = uint x - 128"
proof -
  have "uint x < 256" using uint_bounded [of x] by simp
  moreover have "0 \<le> uint x" by simp
  ultimately have "signed_take_bit 7 (uint x - 128) = uint x - 128"
    by (intro signed_take_bit_int_eq_self) simp_all
  moreover have "sint (word_of_int (uint x - 128) :: 8 word) = signed_take_bit 7 (uint x - 128)"
    by (simp only: sint_sbintrunc') simp
  ultimately show ?thesis
    by (simp only: quantize_sample_def)
qed

lemma quantize_loop_length: "length (quantize_loop img inp i) = length inp"
proof (induction img inp i rule: quantize_loop.induct)
  case (1 img inp i)
  show ?case
  proof (cases "i < IMG_SIZE")
    case True
    with 1 show ?thesis by (subst quantize_loop.simps) simp
  next
    case False
    then show ?thesis by (subst quantize_loop.simps) simp
  qed
qed

text \<open>
  Started at \<open>i\<close>, the loop leaves the entries below \<open>i\<close> alone and overwrites each
  later one with the quantised sample of the same index.
\<close>

lemma quantize_loop_nth:
  "length inp = IMG_SIZE \<Longrightarrow> k < IMG_SIZE \<Longrightarrow>
   quantize_loop img inp i ! k = (if i \<le> k then quantize_sample (img ! k) else inp ! k)"
proof (induction img inp i rule: quantize_loop.induct)
  case (1 img inp i)
  show ?case
  proof (cases "i < IMG_SIZE")
    case True
    have "quantize_loop img inp i ! k =
          quantize_loop img (inp[i := quantize_sample (img ! i)]) (i + 1) ! k"
      using True by (subst quantize_loop.simps) simp
    also have "\<dots> = (if i + 1 \<le> k then quantize_sample (img ! k)
                     else inp[i := quantize_sample (img ! i)] ! k)"
      using 1 True by simp
    also have "\<dots> = (if i \<le> k then quantize_sample (img ! k) else inp ! k)"
      using True 1(2) by (cases "i = k") auto
    finally show ?thesis .
  next
    case False
    with 1(3) show ?thesis by (subst quantize_loop.simps) simp
  qed
qed

text \<open>
  C3. For a complete frame of 784 samples (and the 784-entry input tensor the firmware
  declares), the quantisation step of \<^verbatim>\<open>ProcessInference\<close> leaves a tensor of
  784 entries whose entry \<open>i\<close>, read as a signed byte, is exactly the unsigned sample
  \<open>i\<close> minus 128, for every \<open>i\<close> below 784. The value lies in \<open>[-128, 127]\<close>, so
  nothing wraps and nothing is clamped; the frame itself is left as it was.
\<close>

theorem quantize_exact:
  assumes "length (img_buffer s) = IMG_SIZE" and "length (input_buffer s) = IMG_SIZE"
  shows "length (input_buffer (ProcessInference_quantize s)) = IMG_SIZE \<and>
         img_buffer (ProcessInference_quantize s) = img_buffer s \<and>
         (\<forall>i<IMG_SIZE.
            sint (input_buffer (ProcessInference_quantize s) ! i) = uint (img_buffer s ! i) - 128 \<and>
            - 128 \<le> sint (input_buffer (ProcessInference_quantize s) ! i) \<and>
            sint (input_buffer (ProcessInference_quantize s) ! i) \<le> 127)"
proof -
  have len: "length (input_buffer (ProcessInference_quantize s)) = IMG_SIZE"
    using assms(2) by (simp add: ProcessInference_quantize_def quantize_loop_length)
  have img: "img_buffer (ProcessInference_quantize s) = img_buffer s"
    by (simp add: ProcessInference_quantize_def)
  have val: "sint (input_buffer (ProcessInference_quantize s) ! i) = uint (img_buffer s ! i) - 128"
    if "i < IMG_SIZE" for i
    using that assms(2)
    by (simp add: ProcessInference_quantize_def quantize_loop_nth sint_quantize_sample)
  have rng: "- 128 \<le> uint x - 128 \<and> uint x - 128 \<le> 127" for x :: uint8_t
    using uint_bounded [of x] by simp
  from len img val rng show ?thesis by simp
qed

theorem quantize_exact_witness:
  "length (img_buffer (reset\<lparr>img_buffer := replicate 784 255\<rparr>)) = IMG_SIZE \<and>
   length (input_buffer (reset\<lparr>img_buffer := replicate 784 255\<rparr>)) = IMG_SIZE \<and>
   3 < IMG_SIZE \<and>
   sint (input_buffer (ProcessInference_quantize (reset\<lparr>img_buffer := replicate 784 255\<rparr>)) ! 3) = 127"
proof -
  have a: "length (img_buffer (reset\<lparr>img_buffer := replicate 784 255\<rparr>)) = IMG_SIZE"
    by (simp add: IMG_SIZE_def)
  have b: "length (input_buffer (reset\<lparr>img_buffer := replicate 784 255\<rparr>)) = IMG_SIZE"
    by (simp add: reset_def)
  have c: "(3::nat) < IMG_SIZE"
    by (simp add: IMG_SIZE_def)
  from quantize_exact [OF a b] c
  have "sint (input_buffer (ProcessInference_quantize (reset\<lparr>img_buffer := replicate 784 255\<rparr>)) ! 3)
        = uint (img_buffer (reset\<lparr>img_buffer := replicate 784 255\<rparr>) ! 3) - 128"
    by blast
  with a b c show ?thesis by simp
qed

section \<open>The predicted class\<close>

lemma find_max_inv:
  "0 \<le> p \<Longrightarrow> nat p < i \<Longrightarrow> i \<le> NUM_CLASSES \<Longrightarrow> m = out ! nat p \<Longrightarrow>
   \<forall>j<i. sint (out ! j) \<le> sint m \<Longrightarrow> \<forall>j<nat p. sint (out ! j) < sint m \<Longrightarrow>
   0 \<le> find_max out i p m \<and> nat (find_max out i p m) < NUM_CLASSES \<and>
   (\<forall>j<NUM_CLASSES. sint (out ! j) \<le> sint (out ! nat (find_max out i p m))) \<and>
   (\<forall>j<nat (find_max out i p m). sint (out ! j) < sint (out ! nat (find_max out i p m)))"
proof (induction out i p m rule: find_max.induct)
  case (1 out i p m)
  show ?case
  proof (cases "i < NUM_CLASSES")
    case False
    have eq: "find_max out i p m = p"
      using False by (subst find_max.simps) simp
    from False 1(5) have "i = NUM_CLASSES" by simp
    with 1(3-) show ?thesis unfolding eq by simp
  next
    case True
    show ?thesis
    proof (cases "sint m < sint (out ! i)")
      case gt: True
      have eq: "find_max out i p m = find_max out (i + 1) (int i) (out ! i)"
        using True gt by (subst find_max.simps) simp
      have a: "\<forall>j<i + 1. sint (out ! j) \<le> sint (out ! i)"
        using 1(7) gt by (auto simp: less_Suc_eq)
      have b: "\<forall>j<nat (int i). sint (out ! j) < sint (out ! i)"
        using 1(7) gt by auto
      show ?thesis
        unfolding eq
        using 1(1) [OF True gt _ _ _ _ a b] True by simp
    next
      case le: False
      have eq: "find_max out i p m = find_max out (i + 1) p m"
        using True le by (subst find_max.simps) simp
      have a: "\<forall>j<i + 1. sint (out ! j) \<le> sint m"
        using 1(7) le by (auto simp: less_Suc_eq)
      show ?thesis
        unfolding eq
        using 1(2) [OF True le 1(3) _ _ 1(6) a 1(8)] True 1(4) by simp
    qed
  qed
qed

text \<open>
  C2. For every vector of 10 signed scores, the class that \<^verbatim>\<open>ProcessInference\<close>
  computes (the scan started as the code starts it: counter 1, class 0, maximum the
  score of class 0) is an integer \<open>c\<close> with \<open>0 \<le> c < 10\<close>; no score exceeds the score
  of \<open>c\<close>, and every score before \<open>c\<close> is strictly smaller. So \<open>c\<close> is the first
  position of the maximum, and the lowest index wins a tie.
\<close>

theorem find_max_first_maximum:
  assumes "length out = NUM_CLASSES"
  shows "0 \<le> find_max out 1 0 (out ! 0) \<and> find_max out 1 0 (out ! 0) < 10 \<and>
         (\<forall>j<NUM_CLASSES. sint (out ! j) \<le> sint (out ! nat (find_max out 1 0 (out ! 0)))) \<and>
         (\<forall>j<nat (find_max out 1 0 (out ! 0)).
            sint (out ! j) < sint (out ! nat (find_max out 1 0 (out ! 0))))"
proof -
  have "0 \<le> find_max out 1 0 (out ! 0) \<and> nat (find_max out 1 0 (out ! 0)) < NUM_CLASSES \<and>
        (\<forall>j<NUM_CLASSES. sint (out ! j) \<le> sint (out ! nat (find_max out 1 0 (out ! 0)))) \<and>
        (\<forall>j<nat (find_max out 1 0 (out ! 0)).
           sint (out ! j) < sint (out ! nat (find_max out 1 0 (out ! 0))))"
    by (rule find_max_inv) (simp_all add: NUM_CLASSES_def)
  moreover from this have "find_max out 1 0 (out ! 0) < 10"
    unfolding NUM_CLASSES_def by linarith
  ultimately show ?thesis by blast
qed

text \<open>The tie of the spec: on \<open>[5, 5, 3, ...]\<close> the class is 0.\<close>

theorem find_max_first_maximum_witness:
  "length [5, 5, 3, 0, 0, 0, 0, 0, 0, 0 :: int8_t] = NUM_CLASSES \<and>
   find_max [5, 5, 3, 0, 0, 0, 0, 0, 0, 0] 1 0 ([5, 5, 3, 0, 0, 0, 0, 0, 0, 0] ! 0) = 0 \<and>
   sint ([5, 5, 3, 0, 0, 0, 0, 0, 0, 0 :: int8_t] ! 1)
     \<le> sint ([5, 5, 3, 0, 0, 0, 0, 0, 0, 0 :: int8_t] !
          nat (find_max [5, 5, 3, 0, 0, 0, 0, 0, 0, 0] 1 0 ([5, 5, 3, 0, 0, 0, 0, 0, 0, 0] ! 0)))"
proof -
  let ?out = "[5, 5, 3, 0, 0, 0, 0, 0, 0, 0 :: int8_t]"
  have len: "length ?out = NUM_CLASSES"
    by (simp add: NUM_CLASSES_def)
  have tie: "find_max ?out 1 0 (?out ! 0) = 0"
    by (simp add: find_max.simps NUM_CLASSES_def)
  have "(1::nat) < NUM_CLASSES"
    by (simp add: NUM_CLASSES_def)
  with find_max_first_maximum [OF len] len tie show ?thesis
    by blast
qed

section \<open>The receive-complete callback\<close>

text \<open>
  C1. In \<open>STATE_WAIT_START\<close>, with the 5-byte command buffer just filled, the
  receive-complete callback does one of two things. If the buffer holds the bytes of
  \<^verbatim>\<open>START\<close>, the state becomes \<open>STATE_RECEIVE_IMAGE\<close> and one receive of 784 bytes
  into the image buffer is requested. For any other content the state stays as it is and
  one receive of 5 bytes into the command buffer is requested. Nothing else changes in
  either case: in particular nothing is transmitted and no flag is set.
\<close>

theorem rx_complete_in_wait_start:
  assumes "app_state s = STATE_WAIT_START" and "length (start_cmd_buffer s) = 5"
  shows "HAL_UART_RxCpltCallback USART2 s =
           (if start_cmd_buffer s = START
            then s\<lparr>app_state := STATE_RECEIVE_IMAGE, uart_rx := uart_rx s @ [(IMG_BUFFER, 784)]\<rparr>
            else s\<lparr>uart_rx := uart_rx s @ [(START_CMD_BUFFER, 5)]\<rparr>)"
  using assms
  by (simp add: HAL_UART_RxCpltCallback_def HAL_UART_Receive_IT_def IMG_SIZE_def)

theorem rx_complete_in_wait_start_witness:
  "app_state (main_boot (scripted_engine 1 [])\<lparr>start_cmd_buffer := START\<rparr>) = STATE_WAIT_START \<and>
   length (start_cmd_buffer (main_boot (scripted_engine 1 [])\<lparr>start_cmd_buffer := START\<rparr>)) = 5 \<and>
   HAL_UART_RxCpltCallback USART2 (main_boot (scripted_engine 1 [])\<lparr>start_cmd_buffer := START\<rparr>) =
     main_boot (scripted_engine 1 [])
       \<lparr>start_cmd_buffer := START, app_state := STATE_RECEIVE_IMAGE, uart_rx := [(START_CMD_BUFFER, 5), (IMG_BUFFER, 784)]\<rparr> \<and>
   app_state (main_boot (scripted_engine 1 [])\<lparr>start_cmd_buffer := map of_char ''STARX''\<rparr>) = STATE_WAIT_START \<and>
   length (start_cmd_buffer (main_boot (scripted_engine 1 [])\<lparr>start_cmd_buffer := map of_char ''STARX''\<rparr>)) = 5 \<and>
   HAL_UART_RxCpltCallback USART2 (main_boot (scripted_engine 1 [])\<lparr>start_cmd_buffer := map of_char ''STARX''\<rparr>) =
     main_boot (scripted_engine 1 [])
       \<lparr>start_cmd_buffer := map of_char ''STARX'', uart_rx := [(START_CMD_BUFFER, 5), (START_CMD_BUFFER, 5)]\<rparr>"
proof -
  let ?b = "main_boot (scripted_engine 1 [])"
  have b: "app_state ?b = STATE_WAIT_START" "uart_rx ?b = [(START_CMD_BUFFER, 5)]"
    by (simp_all add: main_boot_def scripted_engine_def AI_Init_def Let_def
        HAL_UART_Transmit_def HAL_UART_Receive_IT_def reset_def)
  have 1: "app_state (?b\<lparr>start_cmd_buffer := START\<rparr>) = STATE_WAIT_START"
    and 2: "length (start_cmd_buffer (?b\<lparr>start_cmd_buffer := START\<rparr>)) = 5"
    and 3: "app_state (?b\<lparr>start_cmd_buffer := map of_char ''STARX''\<rparr>) = STATE_WAIT_START"
    and 4: "length (start_cmd_buffer (?b\<lparr>start_cmd_buffer := map of_char ''STARX''\<rparr>)) = 5"
    using b by (simp_all add: START_bytes)
  from rx_complete_in_wait_start [OF 1 2] rx_complete_in_wait_start [OF 3 4] 1 2 3 4 b
  show ?thesis
    by (simp add: START_bytes)
qed

text \<open>
  C9. In \<open>STATE_IDLE\<close> and in \<open>STATE_PROCESS_IMAGE\<close> the receive-complete callback
  returns the state it was given, whichever UART it is called for: no state change, no
  flag, no buffer write, no receive request.
\<close>

theorem rx_complete_ignored:
  assumes "app_state s = STATE_IDLE \<or> app_state s = STATE_PROCESS_IMAGE"
  shows "HAL_UART_RxCpltCallback huart s = s"
  using assms by (auto simp: HAL_UART_RxCpltCallback_def)

theorem rx_complete_ignored_witness:
  "HAL_UART_RxCpltCallback USART2 reset = reset \<and>
   HAL_UART_RxCpltCallback USART2 (reset\<lparr>app_state := STATE_PROCESS_IMAGE, start_cmd_buffer := START\<rparr>)
     = reset\<lparr>app_state := STATE_PROCESS_IMAGE, start_cmd_buffer := START\<rparr>"
proof -
  have 1: "app_state reset = STATE_IDLE \<or> app_state reset = STATE_PROCESS_IMAGE"
    by (simp add: reset_def)
  have 2: "app_state (reset\<lparr>app_state := STATE_PROCESS_IMAGE, start_cmd_buffer := START\<rparr>) = STATE_IDLE \<or>
           app_state (reset\<lparr>app_state := STATE_PROCESS_IMAGE, start_cmd_buffer := START\<rparr>) = STATE_PROCESS_IMAGE"
    by simp
  from rx_complete_ignored [OF 1] rx_complete_ignored [OF 2] show ?thesis
    by blast
qed

section \<open>The main loop\<close>

text \<open>
  C5. When the loop polls at line 308 and finds a completed frame, its next six
  statements run the pipeline and leave the device in \<open>STATE_WAIT_START\<close> with the
  completion flag cleared and one 5-byte receive on the command buffer requested, whether
  the run succeeded or not. Exactly one message is transmitted. It is
  \<^verbatim>\<open>ERROR: Inference failed\<close> both when the handle or a descriptor is missing and
  when the batch count is not 1, and the class otherwise. The loop goes on (the next
  statement is the poll of line 319), and a \<^verbatim>\<open>START\<close> that then completes starts
  the reception of an image.
\<close>

theorem inference_returns_to_wait_start:
  assumes "pc s = L308" and "rx_complete s \<noteq> 0"
  shows "app_state ((main_step E ^^ 6) s) = STATE_WAIT_START \<and>
         uart_rx ((main_step E ^^ 6) s) = uart_rx s @ [(START_CMD_BUFFER, 5)] \<and>
         rx_complete ((main_step E ^^ 6) s) = 0 \<and>
         pc ((main_step E ^^ 6) s) = L319 \<and>
         uart_tx ((main_step E ^^ 6) s) = uart_tx s @
           [if \<not> network s \<or> \<not> ai_input s \<or> \<not> ai_output s \<or>
               fst (network_run E (quantize_loop (img_buffer s) (input_buffer s) 0)) \<noteq> 1
            then ''ERROR: Inference failed'' @ CRLF
            else snprintf 32
                   (printf_d
                      (find_max (snd (network_run E (quantize_loop (img_buffer s) (input_buffer s) 0))) 1 0
                         (snd (network_run E (quantize_loop (img_buffer s) (input_buffer s) 0)) ! 0))
                    @ CRLF)] \<and>
         HAL_UART_RxCpltCallback USART2 (((main_step E ^^ 6) s)\<lparr>start_cmd_buffer := START\<rparr>) =
           ((main_step E ^^ 6) s)
             \<lparr>start_cmd_buffer := START, app_state := STATE_RECEIVE_IMAGE,
              uart_rx := uart_rx s @ [(START_CMD_BUFFER, 5), (IMG_BUFFER, 784)]\<rparr>"
proof -
  note eq = complete_branch [OF assms, of E]
  have a: "app_state ((main_step E ^^ 6) s) = STATE_WAIT_START"
    and b: "uart_rx ((main_step E ^^ 6) s) = uart_rx s @ [(START_CMD_BUFFER, 5)]"
    and c: "rx_complete ((main_step E ^^ 6) s) = 0"
    and d: "pc ((main_step E ^^ 6) s) = L319"
    unfolding eq by (simp_all add: ProcessInference_run_frame)
  have e: "uart_tx ((main_step E ^^ 6) s) = uart_tx s @
           [if \<not> network s \<or> \<not> ai_input s \<or> \<not> ai_output s \<or>
               fst (network_run E (quantize_loop (img_buffer s) (input_buffer s) 0)) \<noteq> 1
            then ''ERROR: Inference failed'' @ CRLF
            else snprintf 32
                   (printf_d
                      (find_max (snd (network_run E (quantize_loop (img_buffer s) (input_buffer s) 0))) 1 0
                         (snd (network_run E (quantize_loop (img_buffer s) (input_buffer s) 0)) ! 0))
                    @ CRLF)]"
    unfolding eq by (simp add: ProcessInference_run_tx)
  have f: "HAL_UART_RxCpltCallback USART2 (((main_step E ^^ 6) s)\<lparr>start_cmd_buffer := START\<rparr>) =
           ((main_step E ^^ 6) s)
             \<lparr>start_cmd_buffer := START, app_state := STATE_RECEIVE_IMAGE,
              uart_rx := uart_rx s @ [(START_CMD_BUFFER, 5), (IMG_BUFFER, 784)]\<rparr>"
    using a b
    by (simp add: HAL_UART_RxCpltCallback_def HAL_UART_Receive_IT_def IMG_SIZE_def START_bytes)
  from a b c d e f show ?thesis by blast
qed


theorem inference_returns_to_wait_start_witness:
  "pc (reset\<lparr>rx_complete := 1, network := True, ai_input := True, ai_output := True\<rparr>) = L308 \<and>
   rx_complete (reset\<lparr>rx_complete := 1, network := True, ai_input := True, ai_output := True\<rparr>) \<noteq> 0 \<and>
   app_state ((main_step (scripted_engine 1 [0, 0, 0, 9, 0, 0, 0, 0, 0, 0]) ^^ 6)
     (reset\<lparr>rx_complete := 1, network := True, ai_input := True, ai_output := True\<rparr>)) = STATE_WAIT_START \<and>
   uart_tx ((main_step (scripted_engine 1 [0, 0, 0, 9, 0, 0, 0, 0, 0, 0]) ^^ 6)
     (reset\<lparr>rx_complete := 1, network := True, ai_input := True, ai_output := True\<rparr>)) = [''3'' @ CRLF] \<and>
   uart_tx ((main_step (scripted_engine 0 [0, 0, 0, 9, 0, 0, 0, 0, 0, 0]) ^^ 6)
     (reset\<lparr>rx_complete := 1, network := True, ai_input := True, ai_output := True\<rparr>))
     = [''ERROR: Inference failed'' @ CRLF] \<and>
   pc (reset\<lparr>rx_complete := 1\<rparr>) = L308 \<and>
   rx_complete (reset\<lparr>rx_complete := 1\<rparr>) \<noteq> 0 \<and>
   uart_tx ((main_step (scripted_engine 1 [0, 0, 0, 9, 0, 0, 0, 0, 0, 0]) ^^ 6) (reset\<lparr>rx_complete := 1\<rparr>))
     = [''ERROR: Inference failed'' @ CRLF] \<and>
   uart_rx ((main_step (scripted_engine 1 [0, 0, 0, 9, 0, 0, 0, 0, 0, 0]) ^^ 6) (reset\<lparr>rx_complete := 1\<rparr>))
     = [(START_CMD_BUFFER, 5)]"
proof -
  let ?s = "reset\<lparr>rx_complete := 1, network := True, ai_input := True, ai_output := True\<rparr>"
  let ?t = "reset\<lparr>rx_complete := 1\<rparr>"
  have s: "pc ?s = L308" "rx_complete ?s \<noteq> 0" and t: "pc ?t = L308" "rx_complete ?t \<noteq> 0"
    by (simp_all add: reset_def)
  have r: "uart_tx reset = []" "uart_rx reset = []" "network reset = False"
    by (simp_all add: reset_def)
  have three: "snprintf 32 (printf_d (find_max [0, 0, 0, 9, 0, 0, 0, 0, 0, 0] 1 0 0) @ CRLF) = ''3'' @ CRLF"
    by (simp add: find_max.simps NUM_CLASSES_def printf_d_def dec_digits.simps digit_char_def
        snprintf_def CRLF_def)
  from inference_returns_to_wait_start [OF s, of "scripted_engine 1 [0, 0, 0, 9, 0, 0, 0, 0, 0, 0]"]
       inference_returns_to_wait_start [OF s, of "scripted_engine 0 [0, 0, 0, 9, 0, 0, 0, 0, 0, 0]"]
       inference_returns_to_wait_start [OF t, of "scripted_engine 1 [0, 0, 0, 9, 0, 0, 0, 0, 0, 0]"]
       s t r three
  show ?thesis
    by (simp add: scripted_engine_def)
qed

section \<open>The receive discipline\<close>

text \<open>\<open>rx_inv\<close> holds after the boot and is kept by every statement and every event.\<close>

lemma rx_inv_boot: "rx_inv (main_boot E)"
  by (simp add: rx_inv_def idle_ok_def receiving_def main_boot_def AI_Init_def Let_def
      HAL_UART_Transmit_def HAL_UART_Receive_IT_def reset_def)

lemma rx_inv_main:
  assumes "rx_inv s"
  shows "rx_inv (main_step E s)"
proof (cases "uart_rx s = []")
  case True
  with assms have "idle_ok s" by (auto simp: rx_inv_def receiving_def)
  with True show ?thesis
    by (cases "pc s")
       (auto simp: rx_inv_def idle_ok_def receiving_def main_step_def
          ProcessInference_quantize_def ProcessInference_run_frame HAL_UART_Receive_IT_def)
next
  case False
  with assms have "receiving s" by (simp add: rx_inv_def)
  then show ?thesis
    by (auto simp: rx_inv_def receiving_def main_step_def)
qed

lemma rx_inv_complete:
  assumes "rx_inv s" and "uart_rx s = (buf, n) # rest"
  shows "rx_inv (uart_rx_complete bytes s)"
proof -
  from assms have r: "receiving s" by (simp add: rx_inv_def)
  show ?thesis
  proof (cases buf)
    case START_CMD_BUFFER
    with r assms(2) have "app_state s = STATE_WAIT_START" "rest = []"
      by (auto simp: receiving_def)
    with r assms(2) START_CMD_BUFFER show ?thesis
      by (cases "take 5 (bytes @ drop (length bytes) (start_cmd_buffer s)) = START")
         (simp_all add: rx_inv_def receiving_def uart_rx_complete_def store_bytes_def
            HAL_UART_RxCpltCallback_def HAL_UART_Receive_IT_def)
  next
    case IMG_BUFFER
    with r assms(2) have "app_state s = STATE_RECEIVE_IMAGE" "rest = []"
      by (auto simp: receiving_def)
    with r assms(2) IMG_BUFFER show ?thesis
      by (auto simp: rx_inv_def receiving_def idle_ok_def uart_rx_complete_def store_bytes_def
            HAL_UART_RxCpltCallback_def)
  qed
qed

lemma rx_inv_error:
  assumes "rx_inv s" and "uart_rx s = (buf, n) # rest"
  shows "rx_inv (uart_rx_error bytes s)"
proof -
  from assms have "receiving s" by (simp add: rx_inv_def)
  then show ?thesis
    by (auto simp: rx_inv_def receiving_def idle_ok_def uart_rx_error_def store_bytes_def
          HAL_UART_ErrorCallback_def HAL_UART_Transmit_def)
qed

lemma reachable_rx_inv: "s \<in> reachable E \<Longrightarrow> rx_inv s"
  by (induction rule: reachable.induct)
     (simp_all add: rx_inv_boot rx_inv_main rx_inv_complete rx_inv_error)

text \<open>
  The run of the examples: the boot with a scripted engine, then \<^verbatim>\<open>START\<close>, then
  a frame of 784 sevens.
\<close>

lemma boot_scripted:
  "main_boot (scripted_engine b sc) =
     reset\<lparr>app_state := STATE_WAIT_START, network := True, ai_input := True, ai_output := True,
           uart_tx := [READY], uart_rx := [(START_CMD_BUFFER, 5)]\<rparr>"
  by (simp add: main_boot_def AI_Init_def scripted_engine_def Let_def HAL_UART_Transmit_def
      HAL_UART_Receive_IT_def READY_def reset_def AI_ERROR_NONE_def snprintf_def CRLF_def)

lemma after_START:
  "uart_rx_complete START (main_boot (scripted_engine b sc)) =
     reset\<lparr>app_state := STATE_RECEIVE_IMAGE, start_cmd_buffer := START, network := True,
           ai_input := True, ai_output := True,
           uart_tx := [READY], uart_rx := [(IMG_BUFFER, IMG_SIZE)]\<rparr>"
  by (simp add: boot_scripted uart_rx_complete_def store_bytes_def HAL_UART_RxCpltCallback_def
      HAL_UART_Receive_IT_def reset_def START_bytes)

lemma after_frame:
  "uart_rx_complete (replicate 784 7) (uart_rx_complete START (main_boot (scripted_engine b sc))) =
     reset\<lparr>app_state := STATE_PROCESS_IMAGE, rx_complete := 1, start_cmd_buffer := START,
           img_buffer := replicate 784 7, network := True,
           ai_input := True, ai_output := True, uart_tx := [READY], uart_rx := []\<rparr>"
  by (simp only: after_START)
     (simp add: uart_rx_complete_def store_bytes_def HAL_UART_RxCpltCallback_def
        reset_def IMG_SIZE_def)

lemma frame_reachable:
  "uart_rx_complete (replicate 784 7) (uart_rx_complete START (main_boot (scripted_engine b sc)))
     \<in> reachable (scripted_engine b sc)"
proof -
  let ?E = "scripted_engine b sc"
  have 1: "uart_rx (main_boot ?E) = (START_CMD_BUFFER, 5) # []"
    by (simp add: boot_scripted)
  have 2: "length START = 5"
    by (simp add: START_bytes)
  have 3: "uart_rx (uart_rx_complete START (main_boot ?E)) = (IMG_BUFFER, 784) # []"
    by (simp add: after_START IMG_SIZE_def)
  have 4: "length (replicate 784 (7 :: uint8_t)) = 784"
    by simp
  from reachable.rx_complete_event [OF reachable.rx_complete_event [OF reachable.boot 1 2] 3 4]
  show ?thesis .
qed

text \<open>
  C6. In every reachable state at most one receive request is open. If one is open, it
  is the 5-byte request on the command buffer in \<open>STATE_WAIT_START\<close> or the 784-byte
  request on the image buffer in \<open>STATE_RECEIVE_IMAGE\<close>, both flags are clear and
  \<^verbatim>\<open>main\<close> stands at one of its two polls. So no request is open while the
  pipeline runs (lines 311 and 153 on), and none is open when \<^verbatim>\<open>main\<close> is
  about to request one (lines 315 and 325). A callback requests a receive only while it
  answers the request that has just been closed.
\<close>

theorem one_receive_at_a_time:
  assumes "s \<in> reachable E"
  shows "length (uart_rx s) \<le> 1 \<and>
         (uart_rx s = [] \<or>
          (pc s = L308 \<or> pc s = L319) \<and> rx_complete s = 0 \<and> rx_error s = 0 \<and>
          (uart_rx s = [(START_CMD_BUFFER, 5)] \<and> app_state s = STATE_WAIT_START \<or>
           uart_rx s = [(IMG_BUFFER, IMG_SIZE)] \<and> app_state s = STATE_RECEIVE_IMAGE)) \<and>
         (pc s = L311 \<or> pc s = L153 \<longrightarrow> uart_rx s = []) \<and>
         (pc s = L315 \<or> pc s = L325 \<longrightarrow> uart_rx s = [])"
  using reachable_rx_inv [OF assms]
  by (auto simp: rx_inv_def receiving_def)

theorem one_receive_at_a_time_witness:
  "main_step (scripted_engine 1 [])
     (main_step (scripted_engine 1 [])
        (uart_rx_complete (replicate 784 7)
           (uart_rx_complete START (main_boot (scripted_engine 1 [])))))
     \<in> reachable (scripted_engine 1 []) \<and>
   pc (main_step (scripted_engine 1 [])
     (main_step (scripted_engine 1 [])
        (uart_rx_complete (replicate 784 7)
           (uart_rx_complete START (main_boot (scripted_engine 1 [])))))) = L311 \<and>
   uart_rx (main_step (scripted_engine 1 [])
     (main_step (scripted_engine 1 [])
        (uart_rx_complete (replicate 784 7)
           (uart_rx_complete START (main_boot (scripted_engine 1 [])))))) = [] \<and>
   main_boot (scripted_engine 1 []) \<in> reachable (scripted_engine 1 []) \<and>
   uart_rx (main_boot (scripted_engine 1 [])) = [(START_CMD_BUFFER, 5)] \<and>
   length (uart_rx (main_boot (scripted_engine 1 []))) \<le> 1"
proof -
  let ?E = "scripted_engine 1 []"
  let ?s = "main_step ?E (main_step ?E
              (uart_rx_complete (replicate 784 7) (uart_rx_complete START (main_boot ?E))))"
  have r: "?s \<in> reachable ?E"
    by (intro reachable.main frame_reachable)
  have p: "pc ?s = L311"
    by (simp only: after_frame) (simp add: main_step_def reset_def)
  from one_receive_at_a_time [OF r] p have e: "uart_rx ?s = []"
    by blast
  have b: "main_boot ?E \<in> reachable ?E"
    by (rule reachable.boot)
  have u: "uart_rx (main_boot ?E) = [(START_CMD_BUFFER, 5)]"
    by (simp add: boot_scripted)
  from one_receive_at_a_time [OF b] have l: "length (uart_rx (main_boot ?E)) \<le> 1"
    by blast
  from r p e b u l show ?thesis
    by blast
qed


section \<open>Receive errors\<close>

lemma error_event:
  assumes "receiving s" and "uart_rx s = (buf, n) # rest"
  shows "pc (uart_rx_error bytes s) = pc s"
    and "rx_complete (uart_rx_error bytes s) = 0"
    and "rx_error (uart_rx_error bytes s) = 1"
    and "uart_rx (uart_rx_error bytes s) = []"
    and "uart_tx (uart_rx_error bytes s) = uart_tx s @ [''ERROR: UART error'' @ CRLF]"
    and "input_buffer (uart_rx_error bytes s) = input_buffer s"
    and "output_buffer (uart_rx_error bytes s) = output_buffer s"
  using assms
  by (cases buf; auto simp: receiving_def uart_rx_error_def store_bytes_def
        HAL_UART_ErrorCallback_def HAL_UART_Transmit_def snprintf_def CRLF_def)+

lemma error_path_steps:
  assumes "pc s = L308 \<or> pc s = L319" and "rx_complete s = 0" and "rx_error s \<noteq> 0"
  shows "(main_step E ^^ (if pc s = L308 then 5 else 4)) s =
           s\<lparr>rx_error := 0, app_state := STATE_WAIT_START,
             uart_rx := uart_rx s @ [(START_CMD_BUFFER, 5)], pc := L308\<rparr>"
proof (cases "pc s = L308")
  case True
  with assms(2) have 1: "main_step E s = s\<lparr>pc := L319\<rparr>"
    by (simp add: main_step_def)
  have "(main_step E ^^ 5) s = (main_step E ^^ 4) (main_step E s)"
    by (simp add: funpow5 funpow4)
  also have "\<dots> = s\<lparr>rx_error := 0, app_state := STATE_WAIT_START,
                     uart_rx := uart_rx s @ [(START_CMD_BUFFER, 5)], pc := L308\<rparr>"
    unfolding 1 using assms(3) by (subst error_branch) simp_all
  finally show ?thesis using True by simp
next
  case False
  with assms(1) have "pc s = L319" by simp
  from error_branch [OF this assms(3), of E] False show ?thesis by simp
qed

text \<open>
  C4. Take any reachable state with a receive open, and let a receive error arrive after
  any part of the requested bytes. The error callback transmits
  \<^verbatim>\<open>ERROR: UART error\<close> once. The loop then needs five statements from the poll
  of line 308, or four from the poll of line 319, to clear the error flag, enter
  \<open>STATE_WAIT_START\<close> and request 5 bytes on the command buffer; nothing else changes
  on the way, so nothing more is transmitted. The bytes that had arrived are not used:
  no frame is marked complete and the tensors are untouched. A \<^verbatim>\<open>START\<close> that
  completes afterwards starts the reception of an image.
\<close>

theorem uart_error_recovery:
  assumes "s \<in> reachable E" and "uart_rx s = (buf, n) # rest" and "length bytes \<le> n"
  shows "uart_tx (uart_rx_error bytes s) = uart_tx s @ [''ERROR: UART error'' @ CRLF] \<and>
         (main_step E ^^ (if pc s = L308 then 5 else 4)) (uart_rx_error bytes s) =
           (uart_rx_error bytes s)
             \<lparr>rx_error := 0, app_state := STATE_WAIT_START,
              uart_rx := [(START_CMD_BUFFER, 5)], pc := L308\<rparr> \<and>
         rx_complete (uart_rx_error bytes s) = 0 \<and>
         input_buffer (uart_rx_error bytes s) = input_buffer s \<and>
         output_buffer (uart_rx_error bytes s) = output_buffer s \<and>
         app_state (uart_rx_complete START
           ((main_step E ^^ (if pc s = L308 then 5 else 4)) (uart_rx_error bytes s)))
           = STATE_RECEIVE_IMAGE \<and>
         uart_rx (uart_rx_complete START
           ((main_step E ^^ (if pc s = L308 then 5 else 4)) (uart_rx_error bytes s)))
           = [(IMG_BUFFER, IMG_SIZE)]"
proof -
  from reachable_rx_inv [OF assms(1)] assms(2) have r: "receiving s"
    by (simp add: rx_inv_def)
  note ev = error_event [OF r assms(2), of bytes]
  from r have p: "pc s = L308 \<or> pc s = L319"
    by (simp add: receiving_def)
  let ?s1 = "uart_rx_error bytes s"
  from p ev(1) have p1: "pc ?s1 = L308 \<or> pc ?s1 = L319" by simp
  from ev(3) have e1: "rx_error ?s1 \<noteq> 0" by simp
  from error_path_steps [OF p1 ev(2) e1, of E] ev(1,4)
  have rec: "(main_step E ^^ (if pc s = L308 then 5 else 4)) ?s1 =
               ?s1\<lparr>rx_error := 0, app_state := STATE_WAIT_START,
                    uart_rx := [(START_CMD_BUFFER, 5)], pc := L308\<rparr>"
    by simp
  have acc: "app_state (uart_rx_complete START
               (?s1\<lparr>rx_error := 0, app_state := STATE_WAIT_START,
                     uart_rx := [(START_CMD_BUFFER, 5)], pc := L308\<rparr>)) = STATE_RECEIVE_IMAGE"
       "uart_rx (uart_rx_complete START
               (?s1\<lparr>rx_error := 0, app_state := STATE_WAIT_START,
                     uart_rx := [(START_CMD_BUFFER, 5)], pc := L308\<rparr>)) = [(IMG_BUFFER, IMG_SIZE)]"
    by (simp_all add: uart_rx_complete_def store_bytes_def HAL_UART_RxCpltCallback_def
        HAL_UART_Receive_IT_def START_bytes)
  from ev rec acc show ?thesis
    by (simp only:)
qed


theorem uart_error_recovery_witness:
  "main_boot (scripted_engine 1 []) \<in> reachable (scripted_engine 1 []) \<and>
   uart_rx (main_boot (scripted_engine 1 [])) = (START_CMD_BUFFER, 5) # [] \<and>
   length [0x53, 0x54 :: uint8_t] \<le> 5 \<and>
   pc (main_boot (scripted_engine 1 [])) = L308 \<and>
   uart_tx (uart_rx_error [0x53, 0x54] (main_boot (scripted_engine 1 [])))
     = [READY, ''ERROR: UART error'' @ CRLF] \<and>
   app_state (uart_rx_error [0x53, 0x54] (main_boot (scripted_engine 1 []))) = STATE_IDLE \<and>
   (main_step (scripted_engine 1 []) ^^ 5) (uart_rx_error [0x53, 0x54] (main_boot (scripted_engine 1 [])))
     = (uart_rx_error [0x53, 0x54] (main_boot (scripted_engine 1 [])))
         \<lparr>rx_error := 0, app_state := STATE_WAIT_START,
          uart_rx := [(START_CMD_BUFFER, 5)], pc := L308\<rparr> \<and>
   uart_rx_complete START (main_boot (scripted_engine 1 [])) \<in> reachable (scripted_engine 1 []) \<and>
   uart_rx (uart_rx_complete START (main_boot (scripted_engine 1 []))) = (IMG_BUFFER, 784) # [] \<and>
   length (replicate 300 (9 :: uint8_t)) \<le> 784 \<and>
   uart_tx (uart_rx_error (replicate 300 9) (uart_rx_complete START (main_boot (scripted_engine 1 []))))
     = [READY, ''ERROR: UART error'' @ CRLF] \<and>
   app_state (uart_rx_complete START
     ((main_step (scripted_engine 1 []) ^^ 5)
        (uart_rx_error (replicate 300 9) (uart_rx_complete START (main_boot (scripted_engine 1 []))))))
     = STATE_RECEIVE_IMAGE"
proof -
  let ?E = "scripted_engine 1 []"
  let ?b = "main_boot ?E"
  let ?r = "uart_rx_complete START ?b"
  have b: "?b \<in> reachable ?E"
    by (rule reachable.boot)
  have ub: "uart_rx ?b = (START_CMD_BUFFER, 5) # []" and pb: "pc ?b = L308"
    and tb: "uart_tx ?b = [READY]"
    by (simp_all add: boot_scripted reset_def)
  have lb: "length [0x53, 0x54 :: uint8_t] \<le> 5"
    by simp
  have ls: "length START = 5"
    by (simp add: START_bytes)
  have r: "?r \<in> reachable ?E"
    by (rule reachable.rx_complete_event [OF b ub ls])
  have ur: "uart_rx ?r = (IMG_BUFFER, 784) # []" and pr: "pc ?r = L308" and tr: "uart_tx ?r = [READY]"
    by (simp_all add: after_START IMG_SIZE_def reset_def)
  have lr: "length (replicate 300 (9 :: uint8_t)) \<le> 784"
    by simp
  have idle: "app_state (uart_rx_error [0x53, 0x54] ?b) = STATE_IDLE"
    by (simp add: boot_scripted uart_rx_error_def store_bytes_def HAL_UART_ErrorCallback_def
        HAL_UART_Transmit_def)
  note cmd = uart_error_recovery [OF b ub lb]
  note img = uart_error_recovery [OF r ur lr]
  from cmd tb have c1: "uart_tx (uart_rx_error [0x53, 0x54] ?b) = [READY, ''ERROR: UART error'' @ CRLF]"
    by simp
  have kb: "(if pc ?b = L308 then 5 else 4) = (5::nat)" using pb by simp
  have kr: "(if pc ?r = L308 then 5 else 4) = (5::nat)" using pr by simp
  from cmd [unfolded kb] have c2: "(main_step ?E ^^ 5) (uart_rx_error [0x53, 0x54] ?b) =
      (uart_rx_error [0x53, 0x54] ?b)
        \<lparr>rx_error := 0, app_state := STATE_WAIT_START,
         uart_rx := [(START_CMD_BUFFER, 5)], pc := L308\<rparr>"
    by blast
  from img tr have i1: "uart_tx (uart_rx_error (replicate 300 9) ?r) = [READY, ''ERROR: UART error'' @ CRLF]"
    by simp
  from img [unfolded kr] have i2: "app_state (uart_rx_complete START
      ((main_step ?E ^^ 5) (uart_rx_error (replicate 300 9) ?r))) = STATE_RECEIVE_IMAGE"
    by blast
  from b ub lb pb c1 idle c2 r ur lr i1 i2 show ?thesis
    by blast
qed

section \<open>Start-up\<close>

lemma AI_Init_ok:
  "fst (AI_Init E s) = 0 \<longleftrightarrow>
     create_and_init_error E = AI_ERROR_NONE \<and> inputs_get E \<and> outputs_get E"
  by (simp add: AI_Init_def Let_def)

lemma boot_failed:
  assumes "fst (AI_Init E reset) \<noteq> 0"
  shows "uart_tx (main_boot E) = [''AI Init Failed!'' @ CRLF]"
    and "pc (main_boot E) = L280"
    and "uart_rx (main_boot E) = []"
    and "app_state (main_boot E) = STATE_IDLE"
  using assms
  by (auto simp: main_boot_def AI_Init_def Let_def HAL_UART_Transmit_def reset_def
        snprintf_def CRLF_def split: if_splits)

lemma boot_ready:
  assumes "fst (AI_Init E reset) = 0"
  shows "uart_tx (main_boot E) = [READY]"
    and "pc (main_boot E) = L308"
    and "uart_rx (main_boot E) = [(START_CMD_BUFFER, 5)]"
    and "app_state (main_boot E) = STATE_WAIT_START"
  using assms
  by (auto simp: main_boot_def AI_Init_def Let_def HAL_UART_Transmit_def HAL_UART_Receive_IT_def
        reset_def READY_def snprintf_def CRLF_def split: if_splits)

lemma halted_forever:
  assumes "fst (AI_Init E reset) \<noteq> 0"
  shows "reachable E = {main_boot E}"
proof
  show "reachable E \<subseteq> {main_boot E}"
  proof
    fix s
    assume "s \<in> reachable E"
    then have "s = main_boot E"
    proof (induction rule: reachable.induct)
      case boot
      show ?case by simp
    next
      case (main s)
      then show ?case
        using boot_failed(2) [OF assms] by (simp add: main_step_def)
    next
      case (rx_complete_event s buf n rest bytes)
      then show ?case
        using boot_failed(3) [OF assms] by simp
    next
      case (rx_error_event s buf n rest bytes)
      then show ?case
        using boot_failed(3) [OF assms] by simp
    qed
    then show "s \<in> {main_boot E}" by simp
  qed
next
  show "{main_boot E} \<subseteq> reachable E"
    by (simp add: reachable.boot)
qed

lemma READY_length: "length READY = 39"
  by (simp add: READY_def CRLF_def)

lemma result_not_READY: "snprintf 32 x \<noteq> READY"
proof
  assume "snprintf 32 x = READY"
  then have "length (snprintf 32 x) = 39"
    by (simp add: READY_length)
  then show False
    by (simp add: snprintf_def)
qed

lemma response_not_READY:
  "(if c then ''ERROR: Inference failed'' @ CRLF else snprintf 32 x) \<noteq> READY"
proof (cases c)
  case True
  then show ?thesis by (simp add: READY_def)
next
  case False
  then show ?thesis using result_not_READY [of x] by simp
qed

lemma store_bytes_frame:
  "uart_tx (store_bytes buf bytes s) = uart_tx s"
  "pc (store_bytes buf bytes s) = pc s"
  by (cases buf; simp add: store_bytes_def)+

lemma RxCpltCallback_frame:
  "uart_tx (HAL_UART_RxCpltCallback huart s) = uart_tx s"
  "pc (HAL_UART_RxCpltCallback huart s) = pc s"
  by (simp_all add: HAL_UART_RxCpltCallback_def HAL_UART_Receive_IT_def)

lemma ErrorCallback_frame:
  "uart_tx (HAL_UART_ErrorCallback USART2 s) = uart_tx s @ [''ERROR: UART error'' @ CRLF]"
  "pc (HAL_UART_ErrorCallback huart s) = pc s"
  by (simp_all add: HAL_UART_ErrorCallback_def HAL_UART_Transmit_def snprintf_def CRLF_def)

lemma banner_once_append:
  assumes "banner_once s" and "uart_tx s' = uart_tx s @ [m]" and "m \<noteq> READY" and "pc s' \<noteq> L280"
  shows "banner_once s'"
  using assms by (simp add: banner_once_def)

lemma banner_once_same:
  assumes "banner_once s" and "uart_tx s' = uart_tx s" and "pc s' \<noteq> L280"
  shows "banner_once s'"
  using assms by (simp add: banner_once_def)

lemma banner_once_main:
  assumes "banner_once s"
  shows "banner_once (main_step E s)"
proof (cases "pc s = L153")
  case True
  then have step: "main_step E s = (ProcessInference_run E s)\<lparr>pc := L314\<rparr>"
    by (simp add: main_step_def)
  have tx: "uart_tx ((ProcessInference_run E s)\<lparr>pc := L314\<rparr>) = uart_tx (ProcessInference_run E s)"
    by simp
  have p: "pc ((ProcessInference_run E s)\<lparr>pc := L314\<rparr>) \<noteq> L280"
    by simp
  show ?thesis
    unfolding step
    by (rule banner_once_append [OF assms tx [unfolded ProcessInference_run_tx] response_not_READY p])
next
  case False
  from assms have "pc s \<noteq> L280" by (simp add: banner_once_def)
  with False show ?thesis
    by (intro banner_once_same [OF assms]; cases "pc s")
       (simp_all add: main_step_def ProcessInference_quantize_def HAL_UART_Receive_IT_def)
qed

lemma banner_once_complete:
  assumes "banner_once s"
  shows "banner_once (uart_rx_complete bytes s)"
proof -
  from assms have "pc s \<noteq> L280" by (simp add: banner_once_def)
  then show ?thesis
    by (intro banner_once_same [OF assms])
       (simp_all add: uart_rx_complete_def RxCpltCallback_frame store_bytes_frame
          split: list.splits prod.splits)
qed

lemma banner_once_error:
  assumes "banner_once s"
  shows "banner_once (uart_rx_error bytes s)"
proof (cases "uart_rx s")
  case Nil
  with assms show ?thesis by (simp add: uart_rx_error_def)
next
  case (Cons r rest)
  obtain buf n where r: "r = (buf, n)" by (cases r)
  from assms have p: "pc s \<noteq> L280" by (simp add: banner_once_def)
  have eq: "uart_rx_error bytes s =
            HAL_UART_ErrorCallback USART2 (store_bytes buf bytes (s\<lparr>uart_rx := rest\<rparr>))"
    using Cons r by (simp add: uart_rx_error_def)
  have m: "''ERROR: UART error'' @ CRLF \<noteq> READY"
    by (simp add: READY_def)
  show ?thesis
    unfolding eq
    by (rule banner_once_append [OF assms _ m])
       (simp_all only: ErrorCallback_frame store_bytes_frame, simp_all add: p)
qed

lemma reachable_banner_once:
  assumes "s \<in> reachable E" and "fst (AI_Init E reset) = 0"
  shows "banner_once s"
  using assms
proof (induction rule: reachable.induct)
  case boot
  then show ?case
    by (simp add: banner_once_def boot_ready)
qed (simp_all add: banner_once_main banner_once_complete banner_once_error)

text \<open>
  C7. \<^verbatim>\<open>AI_Init\<close> succeeds exactly when the engine reports no error and returns
  both descriptors. If it fails, the boot transmits \<^verbatim>\<open>AI Init Failed!\<close> and
  nothing else, requests no receive, and leaves \<^verbatim>\<open>main\<close> in the empty loop of
  line 280: a statement of \<^verbatim>\<open>main\<close> changes nothing, no event can arrive, and the
  state after the boot is the only reachable one. If it succeeds, the boot transmits the
  banner, enters \<open>STATE_WAIT_START\<close> and requests 5 bytes on the command buffer; in
  every state reachable from there the banner is the first transmission and has been
  sent once, and \<^verbatim>\<open>main\<close> never halts.
\<close>

theorem boot_outcomes:
  "(fst (AI_Init E reset) = 0 \<longleftrightarrow>
      create_and_init_error E = AI_ERROR_NONE \<and> inputs_get E \<and> outputs_get E) \<and>
   (fst (AI_Init E reset) \<noteq> 0 \<longrightarrow>
      uart_tx (main_boot E) = [''AI Init Failed!'' @ CRLF] \<and>
      pc (main_boot E) = L280 \<and>
      uart_rx (main_boot E) = [] \<and>
      app_state (main_boot E) = STATE_IDLE \<and>
      main_step E (main_boot E) = main_boot E \<and>
      reachable E = {main_boot E}) \<and>
   (fst (AI_Init E reset) = 0 \<longrightarrow>
      uart_tx (main_boot E) = [READY] \<and>
      app_state (main_boot E) = STATE_WAIT_START \<and>
      uart_rx (main_boot E) = [(START_CMD_BUFFER, 5)] \<and>
      pc (main_boot E) = L308 \<and>
      (\<forall>s\<in>reachable E.
         hd (uart_tx s) = READY \<and> count_list (uart_tx s) READY = 1 \<and> pc s \<noteq> L280))"
proof (intro conjI impI)
  show "fst (AI_Init E reset) = 0 \<longleftrightarrow>
        create_and_init_error E = AI_ERROR_NONE \<and> inputs_get E \<and> outputs_get E"
    by (rule AI_Init_ok)
next
  assume f: "fst (AI_Init E reset) \<noteq> 0"
  show "uart_tx (main_boot E) = [''AI Init Failed!'' @ CRLF]"
    and "pc (main_boot E) = L280"
    and "uart_rx (main_boot E) = []"
    and "app_state (main_boot E) = STATE_IDLE"
    by (rule boot_failed [OF f])+
  show "main_step E (main_boot E) = main_boot E"
    using boot_failed(2) [OF f] by (simp add: main_step_def)
  show "reachable E = {main_boot E}"
    by (rule halted_forever [OF f])
next
  assume ok: "fst (AI_Init E reset) = 0"
  show "uart_tx (main_boot E) = [READY]"
    and "app_state (main_boot E) = STATE_WAIT_START"
    and "uart_rx (main_boot E) = [(START_CMD_BUFFER, 5)]"
    and "pc (main_boot E) = L308"
    by (rule boot_ready [OF ok])+
  show "\<forall>s\<in>reachable E.
          hd (uart_tx s) = READY \<and> count_list (uart_tx s) READY = 1 \<and> pc s \<noteq> L280"
    using reachable_banner_once [OF _ ok] by (simp add: banner_once_def)
qed

theorem boot_outcomes_witness:
  "fst (AI_Init broken_engine reset) \<noteq> 0 \<and>
   uart_tx (main_boot broken_engine) = [''AI Init Failed!'' @ CRLF] \<and>
   pc (main_boot broken_engine) = L280 \<and>
   reachable broken_engine = {main_boot broken_engine} \<and>
   fst (AI_Init (scripted_engine 1 []) reset) = 0 \<and>
   uart_tx (main_boot (scripted_engine 1 [])) = [READY] \<and>
   app_state (main_boot (scripted_engine 1 [])) = STATE_WAIT_START \<and>
   uart_rx (main_boot (scripted_engine 1 [])) = [(START_CMD_BUFFER, 5)] \<and>
   uart_rx_complete START (main_boot (scripted_engine 1 [])) \<in> reachable (scripted_engine 1 []) \<and>
   count_list (uart_tx (uart_rx_complete START (main_boot (scripted_engine 1 [])))) READY = 1"
proof -
  have f: "fst (AI_Init broken_engine reset) \<noteq> 0"
    by (simp add: AI_Init_def broken_engine_def scripted_engine_def AI_ERROR_NONE_def)
  have ok: "fst (AI_Init (scripted_engine 1 []) reset) = 0"
    by (simp add: AI_Init_def scripted_engine_def Let_def)
  have r: "uart_rx_complete START (main_boot (scripted_engine 1 [])) \<in> reachable (scripted_engine 1 [])"
    by (rule reachable.rx_complete_event [OF reachable.boot, of _ START_CMD_BUFFER 5 "[]"])
       (simp_all add: boot_scripted START_bytes)
  from boot_outcomes [of broken_engine] boot_outcomes [of "scripted_engine 1 []"] f ok r
  show ?thesis
    by blast
qed


section \<open>The class as a function of the frame\<close>

lemma quantize_loop_map:
  assumes "length img = IMG_SIZE" and "length inp = IMG_SIZE"
  shows "quantize_loop img inp 0 = map quantize_sample img"
proof (rule nth_equalityI)
  show "length (quantize_loop img inp 0) = length (map quantize_sample img)"
    using assms by (simp add: quantize_loop_length)
next
  fix k
  assume "k < length (quantize_loop img inp 0)"
  then have k: "k < IMG_SIZE"
    using assms(2) by (simp add: quantize_loop_length)
  with assms show "quantize_loop img inp 0 ! k = map quantize_sample img ! k"
    by (simp add: quantize_loop_nth)
qed

lemma ProcessInference_frame:
  "img_buffer (ProcessInference E s) = img_buffer s"
  "network (ProcessInference E s) = network s"
  "ai_input (ProcessInference E s) = ai_input s"
  "ai_output (ProcessInference E s) = ai_output s"
  "input_buffer (ProcessInference E s) = quantize_loop (img_buffer s) (input_buffer s) 0"
  by (simp_all add: ProcessInference_def ProcessInference_run_frame ProcessInference_quantize_def)

text \<open>
  C8. With the engine a function of its input tensor: in any state holding a complete
  frame, with the engine initialised and answering with batch count 1,
  \<^verbatim>\<open>ProcessInference\<close> transmits the decimal of \<open>predicted_class\<close>, which is
  computed from the engine and the frame alone; whatever else the state holds (flags,
  protocol state, earlier tensor and scores, what was transmitted or requested) has no
  influence. Run a second time on the same frame it transmits the same class again.
\<close>

theorem class_depends_on_frame_only:
  assumes "length (img_buffer s) = IMG_SIZE" and "length (input_buffer s) = IMG_SIZE"
    and "network s" and "ai_input s" and "ai_output s"
    and "fst (network_run E (map quantize_sample (img_buffer s))) = 1"
  shows "uart_tx (ProcessInference E s) =
           uart_tx s @ [snprintf 32 (printf_d (predicted_class E (img_buffer s)) @ CRLF)] \<and>
         uart_tx (ProcessInference E (ProcessInference E s)) =
           uart_tx s @ [snprintf 32 (printf_d (predicted_class E (img_buffer s)) @ CRLF),
                        snprintf 32 (printf_d (predicted_class E (img_buffer s)) @ CRLF)]"
proof -
  have once: "uart_tx (ProcessInference E t) =
                uart_tx t @ [snprintf 32 (printf_d (predicted_class E (img_buffer t)) @ CRLF)]"
    if "length (img_buffer t) = IMG_SIZE" and "length (input_buffer t) = IMG_SIZE"
      and "network t" and "ai_input t" and "ai_output t"
      and "fst (network_run E (map quantize_sample (img_buffer t))) = 1" for t
    using that
    by (simp only: ProcessInference_tx quantize_loop_map predicted_class_def Let_def) simp
  have first: "uart_tx (ProcessInference E s) =
                 uart_tx s @ [snprintf 32 (printf_d (predicted_class E (img_buffer s)) @ CRLF)]"
    by (rule once [OF assms])
  have len: "length (input_buffer (ProcessInference E s)) = IMG_SIZE"
    using assms(2) by (simp add: ProcessInference_frame quantize_loop_length)
  have "uart_tx (ProcessInference E (ProcessInference E s)) =
          uart_tx (ProcessInference E s) @
            [snprintf 32 (printf_d (predicted_class E (img_buffer (ProcessInference E s))) @ CRLF)]"
    by (rule once) (simp_all add: ProcessInference_frame(1-4) assms len)
  with first show ?thesis
    by (simp add: ProcessInference_frame)
qed

theorem class_depends_on_frame_only_witness:
  "length (img_buffer (reset\<lparr>img_buffer := replicate 784 255, network := True, ai_input := True, ai_output := True\<rparr>)) = IMG_SIZE \<and>
   length (input_buffer (reset\<lparr>img_buffer := replicate 784 255, network := True, ai_input := True, ai_output := True\<rparr>)) = IMG_SIZE \<and>
   fst (network_run (scripted_engine 1 [0, 0, 0, 9, 0, 0, 0, 0, 0, 0]) (map quantize_sample (replicate 784 255))) = 1 \<and>
   predicted_class (scripted_engine 1 [0, 0, 0, 9, 0, 0, 0, 0, 0, 0]) (replicate 784 255) = 3 \<and>
   uart_tx (ProcessInference (scripted_engine 1 [0, 0, 0, 9, 0, 0, 0, 0, 0, 0])
     (reset\<lparr>img_buffer := replicate 784 255, network := True, ai_input := True, ai_output := True\<rparr>))
     = [''3'' @ CRLF] \<and>
   uart_tx (ProcessInference (scripted_engine 1 [0, 0, 0, 9, 0, 0, 0, 0, 0, 0])
     (ProcessInference (scripted_engine 1 [0, 0, 0, 9, 0, 0, 0, 0, 0, 0])
        (reset\<lparr>img_buffer := replicate 784 255, network := True, ai_input := True, ai_output := True,
               uart_tx := [READY], rx_error := 1, app_state := STATE_PROCESS_IMAGE\<rparr>)))
     = [READY, ''3'' @ CRLF, ''3'' @ CRLF]"
proof -
  let ?E = "scripted_engine 1 [0, 0, 0, 9, 0, 0, 0, 0, 0, 0]"
  let ?s = "reset\<lparr>img_buffer := replicate 784 255, network := True, ai_input := True, ai_output := True\<rparr>"
  let ?t = "reset\<lparr>img_buffer := replicate 784 255, network := True, ai_input := True, ai_output := True,
               uart_tx := [READY], rx_error := 1, app_state := STATE_PROCESS_IMAGE\<rparr>"
  have s: "length (img_buffer ?s) = IMG_SIZE" "length (input_buffer ?s) = IMG_SIZE"
    "network ?s" "ai_input ?s" "ai_output ?s"
    and t: "length (img_buffer ?t) = IMG_SIZE" "length (input_buffer ?t) = IMG_SIZE"
    "network ?t" "ai_input ?t" "ai_output ?t"
    by (simp_all add: reset_def IMG_SIZE_def)
  have i: "img_buffer ?s = replicate 784 255" "img_buffer ?t = replicate 784 255"
    "uart_tx ?s = []" "uart_tx ?t = [READY]"
    by (simp_all add: reset_def)
  have b: "fst (network_run ?E (map quantize_sample (replicate 784 255))) = 1"
    by (simp add: scripted_engine_def)
  have c: "predicted_class ?E (replicate 784 255) = 3"
    by (simp add: predicted_class_def scripted_engine_def find_max.simps NUM_CLASSES_def)
  have three: "snprintf 32 (printf_d 3 @ CRLF) = ''3'' @ CRLF"
    by (simp add: printf_d_def dec_digits.simps digit_char_def snprintf_def CRLF_def)
  note S = class_depends_on_frame_only [OF s, unfolded i, OF b, unfolded c three]
  note T = class_depends_on_frame_only [OF t, unfolded i, OF b, unfolded c three]
  from S have S1: "uart_tx (ProcessInference ?E ?s) = [''3'' @ CRLF]"
    by simp
  from T have T2: "uart_tx (ProcessInference ?E (ProcessInference ?E ?t)) = [READY, ''3'' @ CRLF, ''3'' @ CRLF]"
    by simp
  from s(1,2) b c S1 T2 show ?thesis
    by blast
qed

section \<open>A completed frame and an error flag together\<close>
















end
